theory Spec2Isabelle
  imports Complex_Main
begin

section \<open>The weather dashboard of \<^verbatim>\<open>src/app/page.tsx\<close>\<close>

text \<open>
  The page is one React component, \<^verbatim>\<open>Home\<close>. Its \<^verbatim>\<open>useState\<close> cells are the
  fields of one record, each event handler is a function from the state of the render
  whose closure it is to the state after its setters have been applied, and every
  \<^verbatim>\<open>fetch\<close> a handler issues is logged as the URL it requests.
  A JavaScript \<^verbatim>\<open>number\<close> is only stored and handed on by the code modelled here, never
  computed with, and is a \<open>real\<close>.
\<close>

subsection \<open>Data\<close>

type_synonym number = real

text \<open>\<^verbatim>\<open>interface WeatherData\<close>; the optional \<^verbatim>\<open>rain\<close> and \<^verbatim>\<open>snow\<close> objects hold
  the one field \<^verbatim>\<open>"1h"\<close>.\<close>

record weather_main =
  temp :: number
  feels_like :: number
  temp_max :: number
  temp_min :: number
  humidity :: number

record weather_wind =
  speed :: number

record weather_condition =
  condition_main :: string

record WeatherData =
  name :: string
  main :: weather_main
  wind :: weather_wind
  weather_conditions :: "weather_condition list"
  rain :: "number option"
  snow :: "number option"

text \<open>\<^verbatim>\<open>interface ForecastData\<close>, with \<^verbatim>\<open>main.temp\<close> flattened into one field, and
  \<^verbatim>\<open>interface ChartData\<close>.\<close>

record ForecastData =
  dt :: number
  forecast_temp :: number

record ChartData =
  date :: string
  chart_temp :: number

text \<open>The value of \<^verbatim>\<open>lastAction\<close>: \<^verbatim>\<open>{ type: string; value: string }\<close>.\<close>

record action =
  action_type :: string
  action_value :: string

text \<open>The twelve \<^verbatim>\<open>useState\<close> cells of \<^verbatim>\<open>Home\<close>. \<^verbatim>\<open>units\<close> and \<^verbatim>\<open>theme\<close> are
  strings in the source, not enumerations.\<close>

record state =
  location :: string
  weather :: "WeatherData option"
  forecast :: "ForecastData list"
  units :: string
  theme :: string
  loading :: bool
  error :: "string option"
  recentLocations :: "string list"
  favorites :: "string list"
  showFeatureInfo :: bool
  lastAction :: "action option"
  showDetails :: bool

definition initial_state :: state where
  "initial_state =
     \<lparr>location = [], weather = None, forecast = [], units = ''metric'', theme = ''light'',
      loading = False, error = None, recentLocations = [], favorites = [],
      showFeatureInfo = True, lastAction = None, showDetails = False\<rparr>"

subsection \<open>The network and the configuration\<close>

text \<open>What a \<^verbatim>\<open>catch\<close> clause can receive: an \<^verbatim>\<open>Error\<close> instance with its message,
  or any other value.\<close>

datatype thrown = ErrorInstance string | OtherValue

text \<open>\<^verbatim>\<open>await response.json()\<close> yields the parsed body or rejects.\<close>

datatype 'a body = Json 'a | JsonThrows thrown

text \<open>\<^verbatim>\<open>await fetch(url)\<close> rejects, or yields a response with its \<^verbatim>\<open>ok\<close> flag and
  its body.\<close>

datatype 'a fetch_result = Rejected thrown | Response bool "'a body"

text \<open>The environment of one call: the build-time \<^verbatim>\<open>API_KEY\<close>
  (\<^verbatim>\<open>process.env.NEXT_PUBLIC_OPENWEATHER_API_KEY\<close>, \<open>None\<close> when undefined), what the
  provider answers to a request for current conditions and to one for the forecast
  (the \<^verbatim>\<open>list\<close> field of the forecast body), and which characters
  \<^verbatim>\<open>String.prototype.trim\<close> strips.\<close>

record env =
  API_KEY :: "string option"
  fetch_weather :: "string \<Rightarrow> WeatherData fetch_result"
  fetch_forecast :: "string \<Rightarrow> ForecastData list fetch_result"
  is_whitespace :: "char \<Rightarrow> bool"

definition API_BASE :: string where
  "API_BASE = ''https://api.openweathermap.org/data/2.5''"

text \<open>\<^verbatim>\<open>!API_KEY\<close>: the key is undefined or the empty string.\<close>

definition no_api_key :: "env \<Rightarrow> bool" where
  "no_api_key e = (case API_KEY e of None \<Rightarrow> True | Some k \<Rightarrow> k = [])"

definition weather_url :: "env \<Rightarrow> string \<Rightarrow> string \<Rightarrow> string" where
  "weather_url e searchLocation u =
     API_BASE @ ''/weather?q='' @ searchLocation @ ''&units='' @ u @ ''&appid='' @
     (case API_KEY e of None \<Rightarrow> ''undefined'' | Some k \<Rightarrow> k)"

definition forecast_url :: "env \<Rightarrow> string \<Rightarrow> string \<Rightarrow> string" where
  "forecast_url e searchLocation u =
     API_BASE @ ''/forecast?q='' @ searchLocation @ ''&units='' @ u @ ''&appid='' @
     (case API_KEY e of None \<Rightarrow> ''undefined'' | Some k \<Rightarrow> k)"

subsection \<open>\<^verbatim>\<open>fetchWeather\<close>\<close>

definition msg_unavailable :: string where
  "msg_unavailable = ''Weather data is temporarily unavailable. Please check back later.''"

definition msg_not_found :: string where
  "msg_not_found = ''Location not found. Please check the spelling and try again.''"

definition msg_forecast :: string where
  "msg_forecast = ''Forecast data unavailable''"

definition msg_unknown :: string where
  "msg_unknown = ''An unknown error occurred''"

text \<open>The two awaited requests of the \<^verbatim>\<open>try\<close> block, up to the first setter: what was
  thrown, or the two parsed bodies; and the URLs fetched, in order. \<open>c\<close> is the state
  the closure captured, of which only \<^verbatim>\<open>units\<close> is read here.\<close>

definition fetchWeather_requests ::
  "env \<Rightarrow> string \<Rightarrow> state \<Rightarrow> (thrown + WeatherData \<times> ForecastData list) \<times> string list" where
  "fetchWeather_requests e searchLocation c =
     (let url1 = weather_url e searchLocation (units c) in
      case fetch_weather e url1 of
        Rejected t \<Rightarrow> (Inl t, [url1])
      | Response ok1 body1 \<Rightarrow>
          if \<not> ok1 then (Inl (ErrorInstance msg_not_found), [url1])
          else (case body1 of
            JsonThrows t \<Rightarrow> (Inl t, [url1])
          | Json weatherData \<Rightarrow>
              (let url2 = forecast_url e searchLocation (units c) in
               case fetch_forecast e url2 of
                 Rejected t \<Rightarrow> (Inl t, [url1, url2])
               | Response ok2 body2 \<Rightarrow>
                   if \<not> ok2 then (Inl (ErrorInstance msg_forecast), [url1, url2])
                   else (case body2 of
                     JsonThrows t \<Rightarrow> (Inl t, [url1, url2])
                   | Json forecastList \<Rightarrow> (Inr (weatherData, forecastList), [url1, url2])))))"

text \<open>\<^verbatim>\<open>err instanceof Error ? err.message : "An unknown error occurred"\<close>\<close>

definition error_message :: "thrown \<Rightarrow> string" where
  "error_message t = (case t of ErrorInstance m \<Rightarrow> m | OtherValue \<Rightarrow> msg_unknown)"

text \<open>The synchronous start of a call with a key configured:
  \<^verbatim>\<open>setLoading(true); setError(null)\<close>.\<close>

definition fetchWeather_begin :: "state \<Rightarrow> state" where
  "fetchWeather_begin s = s\<lparr>loading := True, error := None\<rparr>"

text \<open>The setters that run once the requests are over, applied to the state \<open>s\<close> of that
  moment: on success \<^verbatim>\<open>setWeather\<close>, \<^verbatim>\<open>setForecast\<close> and, when the captured
  \<^verbatim>\<open>recentLocations\<close> does not include the place, \<^verbatim>\<open>setRecentLocations\<close> of a list
  built from the captured one; in \<^verbatim>\<open>catch\<close>, \<^verbatim>\<open>setError\<close>; in \<^verbatim>\<open>finally\<close>,
  \<^verbatim>\<open>setLoading(false)\<close>.\<close>

definition fetchWeather_settle ::
  "(thrown + WeatherData \<times> ForecastData list) \<Rightarrow> string \<Rightarrow> state \<Rightarrow> state \<Rightarrow> state" where
  "fetchWeather_settle r searchLocation c s =
     (case r of
        Inr (weatherData, forecastList) \<Rightarrow>
          (let s1 = s\<lparr>weather := Some weatherData, forecast := forecastList\<rparr>;
               s2 = (if searchLocation \<notin> set (recentLocations c)
                     then s1\<lparr>recentLocations := take 5 (searchLocation # recentLocations c)\<rparr>
                     else s1)
           in s2\<lparr>loading := False\<rparr>)
      | Inl t \<Rightarrow> s\<lparr>error := Some (error_message t), loading := False\<rparr>)"

text \<open>A whole call with no other event in between: the new state and the requests
  issued.\<close>

definition fetchWeather :: "env \<Rightarrow> string \<Rightarrow> state \<Rightarrow> state \<times> string list" where
  "fetchWeather e searchLocation s =
     (if no_api_key e then (s\<lparr>error := Some msg_unavailable\<rparr>, [])
      else (let (r, reqs) = fetchWeather_requests e searchLocation s
            in (fetchWeather_settle r searchLocation s (fetchWeather_begin s), reqs)))"

text \<open>A search is successful when both requests answered \<^verbatim>\<open>ok\<close> with a body that
  parsed.\<close>

definition search_succeeds :: "env \<Rightarrow> string \<Rightarrow> state \<Rightarrow> bool" where
  "search_succeeds e searchLocation s =
     (\<not> no_api_key e \<and>
      (case fst (fetchWeather_requests e searchLocation s) of Inr _ \<Rightarrow> True | Inl _ \<Rightarrow> False))"

text \<open>\<^verbatim>\<open>handleSearch\<close>: \<^verbatim>\<open>location.trim()\<close> is truthy when some character of the input
  is not whitespace.\<close>

definition handleSearch :: "env \<Rightarrow> state \<Rightarrow> state \<times> string list" where
  "handleSearch e s =
     (if list_ex (\<lambda>ch. \<not> is_whitespace e ch) (location s)
      then fetchWeather e (location s) s else (s, []))"

subsection \<open>The other handlers\<close>

definition toggleFavorite :: "string \<Rightarrow> state \<Rightarrow> state" where
  "toggleFavorite loc s =
     (if loc \<in> set (favorites s)
      then s\<lparr>favorites := filter (\<lambda>f. f \<noteq> loc) (favorites s)\<rparr>
      else s\<lparr>favorites := favorites s @ [loc]\<rparr>)"

definition toggleUnits :: "state \<Rightarrow> state" where
  "toggleUnits s =
     (let oldUnit = units s in
      s\<lparr>units := (if units s = ''metric'' then ''imperial'' else ''metric''),
        lastAction := Some \<lparr>action_type = ''units'', action_value = oldUnit\<rparr>\<rparr>)"

definition undoLastAction :: "state \<Rightarrow> state" where
  "undoLastAction s =
     (case lastAction s of
        None \<Rightarrow> s
      | Some a \<Rightarrow>
          if action_type a = ''units'' then s\<lparr>units := action_value a, lastAction := None\<rparr>
          else s)"

text \<open>The theme button: \<^verbatim>\<open>setTheme(theme === "light" ? "dark" : "light")\<close>.\<close>

definition toggleTheme :: "state \<Rightarrow> state" where
  "toggleTheme s = s\<lparr>theme := (if theme s = ''light'' then ''dark'' else ''light'')\<rparr>"

definition dismissFeatureInfo :: "state \<Rightarrow> state" where
  "dismissFeatureInfo s = s\<lparr>showFeatureInfo := False\<rparr>"

definition toggleDetails :: "state \<Rightarrow> state" where
  "toggleDetails s = s\<lparr>showDetails := (\<not> showDetails s)\<rparr>"

definition setLocation :: "string \<Rightarrow> state \<Rightarrow> state" where
  "setLocation v s = s\<lparr>location := v\<rparr>"

subsection \<open>What the page renders\<close>

text \<open>\<^verbatim>\<open>String.prototype.includes\<close>: \<open>pat\<close> occurs in \<open>str\<close> as a contiguous run.\<close>

fun starts_with :: "string \<Rightarrow> string \<Rightarrow> bool" where
  "starts_with str [] = True"
| "starts_with [] (p # ps) = False"
| "starts_with (ch # cs) (p # ps) = (ch = p \<and> starts_with cs ps)"

fun includes_str :: "string \<Rightarrow> string \<Rightarrow> bool" where
  "includes_str [] pat = (pat = [])"
| "includes_str (ch # cs) pat = (starts_with (ch # cs) pat \<or> includes_str cs pat)"

text \<open>The footer's second paragraph, "Please configure your API key to access weather
  data", is rendered under \<^verbatim>\<open>error && error.includes("API key")\<close>.\<close>

definition footer_notice :: "state \<Rightarrow> bool" where
  "footer_notice s =
     (case error s of None \<Rightarrow> False | Some m \<Rightarrow> m \<noteq> [] \<and> includes_str m ''API key'')"

text \<open>The undo button is rendered under \<^verbatim>\<open>lastAction &&\<close>; an object is always
  truthy.\<close>

definition undo_control :: "state \<Rightarrow> bool" where
  "undo_control s = (lastAction s \<noteq> None)"

text \<open>\<^verbatim>\<open>Array.prototype.filter\<close> with a callback that also reads the index.\<close>

definition filter_with_index :: "('a \<Rightarrow> nat \<Rightarrow> bool) \<Rightarrow> 'a list \<Rightarrow> 'a list" where
  "filter_with_index p xs = map snd (filter (\<lambda>(i, x). p x i) (enumerate 0 xs))"

text \<open>\<^verbatim>\<open>renderForecastChart\<close>: \<open>None\<close> is \<^verbatim>\<open>null\<close>, otherwise the \<^verbatim>\<open>chartData\<close> handed to
  the line chart. \<open>toLocaleDateString\<close> stands for the platform's
  \<^verbatim>\<open>ms \<mapsto> new Date(ms).toLocaleDateString()\<close>.\<close>

definition renderForecastChart :: "(number \<Rightarrow> string) \<Rightarrow> state \<Rightarrow> ChartData list option" where
  "renderForecastChart toLocaleDateString s =
     (if length (forecast s) = 0 then None
      else Some (map (\<lambda>item. \<lparr>date = toLocaleDateString (dt item * 1000),
                              chart_temp = forecast_temp item\<rparr>)
                   (filter_with_index (\<lambda>_ index. index mod 8 = 0) (forecast s))))"

subsection \<open>Persistence\<close>

text \<open>What \<^verbatim>\<open>localStorage\<close> holds under the page's five keys. A list item is absent, the
  \<^verbatim>\<open>JSON.stringify\<close> of a string array, or a text \<^verbatim>\<open>JSON.parse\<close> rejects.\<close>

datatype stored_array = NoItem | Array "string list" | Malformed

record storage =
  item_weatherUnits :: "string option"
  item_weatherTheme :: "string option"
  item_weatherFavorites :: stored_array
  item_recentLocations :: stored_array
  item_hasSeenFeatureInfo :: "string option"

definition empty_storage :: storage where
  "empty_storage =
     \<lparr>item_weatherUnits = None, item_weatherTheme = None, item_weatherFavorites = NoItem,
      item_recentLocations = NoItem, item_hasSeenFeatureInfo = None\<rparr>"

text \<open>\<^verbatim>\<open>JSON.parse(localStorage.getItem(key) || "[]")\<close>; \<open>None\<close> when it throws.\<close>

definition parse_array :: "stored_array \<Rightarrow> string list option" where
  "parse_array a = (case a of NoItem \<Rightarrow> Some [] | Array xs \<Rightarrow> Some xs | Malformed \<Rightarrow> None)"

text \<open>The truthiness of a string item: null and the empty string are falsy.\<close>

definition truthy :: "string option \<Rightarrow> bool" where
  "truthy v = (case v of None \<Rightarrow> False | Some x \<Rightarrow> x \<noteq> [])"

text \<open>The effect that loads the saved preferences when the page mounts. Both lists are
  parsed before the first setter, so a parse that throws leaves every cell as it was;
  a parsed array is always truthy.\<close>

definition loadPreferences :: "storage \<Rightarrow> state \<Rightarrow> state" where
  "loadPreferences st s =
     (case parse_array (item_weatherFavorites st) of
        None \<Rightarrow> s
      | Some savedFavorites \<Rightarrow>
          (case parse_array (item_recentLocations st) of
             None \<Rightarrow> s
           | Some savedLocations \<Rightarrow>
               (let s1 = (case item_weatherUnits st of
                            None \<Rightarrow> s
                          | Some savedUnits \<Rightarrow>
                              if truthy (Some savedUnits) then s\<lparr>units := savedUnits\<rparr> else s);
                    s2 = (case item_weatherTheme st of
                            None \<Rightarrow> s1
                          | Some savedTheme \<Rightarrow>
                              if truthy (Some savedTheme) then s1\<lparr>theme := savedTheme\<rparr> else s1);
                    s3 = s2\<lparr>favorites := savedFavorites\<rparr>;
                    s4 = s3\<lparr>recentLocations := savedLocations\<rparr>
                in if truthy (item_hasSeenFeatureInfo st)
                   then s4\<lparr>showFeatureInfo := False\<rparr> else s4)))"

text \<open>The effect that saves the preferences: four \<^verbatim>\<open>setItem\<close> calls in a \<^verbatim>\<open>try\<close>, of
  which the first \<open>k\<close> succeed before one throws (\<open>k \<ge> 4\<close>: none throws).\<close>

definition savePreferences :: "nat \<Rightarrow> state \<Rightarrow> storage \<Rightarrow> storage" where
  "savePreferences k s st =
     (let st1 = (if 1 \<le> k then st\<lparr>item_weatherUnits := Some (units s)\<rparr> else st);
          st2 = (if 2 \<le> k then st1\<lparr>item_weatherTheme := Some (theme s)\<rparr> else st1);
          st3 = (if 3 \<le> k then st2\<lparr>item_weatherFavorites := Array (favorites s)\<rparr> else st2)
      in if 4 \<le> k then st3\<lparr>item_recentLocations := Array (recentLocations s)\<rparr> else st3)"

subsection \<open>Events\<close>

text \<open>The controls of the page: typing in the search box, submitting the form, a chip of
  the recent or of the favourite places, the star beside the place shown, the units,
  undo and theme buttons, "Got it" on the banner, and the summary of the details
  panel.\<close>

datatype event =
    Type string | Submit | RecentChip string | FavoriteChip string | Star
  | UnitsButton | UndoButton | ThemeButton | GotIt | DetailsSummary

text \<open>The place an event calls \<^verbatim>\<open>fetchWeather\<close> with, if it does. A chip exists only for
  a place of its list.\<close>

fun search_target :: "env \<Rightarrow> event \<Rightarrow> state \<Rightarrow> string option" where
  "search_target e Submit s =
     (if list_ex (\<lambda>ch. \<not> is_whitespace e ch) (location s) then Some (location s) else None)"
| "search_target e (RecentChip loc) s =
     (if loc \<in> set (recentLocations s) then Some loc else None)"
| "search_target e (FavoriteChip loc) s =
     (if loc \<in> set (favorites s) then Some loc else None)"
| "search_target e ev s = None"

text \<open>The handlers that call no \<^verbatim>\<open>fetchWeather\<close>. The star and the undo button are
  rendered only while there is a place shown, respectively a last action.\<close>

fun handle :: "event \<Rightarrow> state \<Rightarrow> state" where
  "handle (Type v) s = setLocation v s"
| "handle Star s = (case weather s of None \<Rightarrow> s | Some w \<Rightarrow> toggleFavorite (name w) s)"
| "handle UnitsButton s = toggleUnits s"
| "handle UndoButton s = (if undo_control s then undoLastAction s else s)"
| "handle ThemeButton s = toggleTheme s"
| "handle GotIt s = dismissFeatureInfo s"
| "handle DetailsSummary s = toggleDetails s"
| "handle ev s = s"

text \<open>An event run to completion with nothing in between: the new state and the requests
  issued.\<close>

definition dispatch :: "env \<Rightarrow> event \<Rightarrow> state \<Rightarrow> state \<times> string list" where
  "dispatch e ev s =
     (case search_target e ev s of
        Some loc \<Rightarrow> fetchWeather e loc s
      | None \<Rightarrow> (handle ev s, []))"

text \<open>The states the page can be in, with the calls of \<^verbatim>\<open>fetchWeather\<close> still awaiting
  their responses (each with its place and the state its closure captured) and the
  contents of the storage. Other events may come between the start of a search and its
  end, and the chips are not disabled while a search is loading. A reload mounts a new
  page on the storage the old one left: the loading effect reads it, and the saving
  effect of the same commit writes the values of the first render. The saving effect
  may run at any later moment, and any of its writes may throw.\<close>

inductive reachable :: "state \<Rightarrow> (string \<times> state) list \<Rightarrow> storage \<Rightarrow> bool" where
  first_visit: "reachable initial_state [] empty_storage"
| reload: "reachable s P st \<Longrightarrow>
    reachable (loadPreferences st initial_state) [] (savePreferences k initial_state st)"
| save: "reachable s P st \<Longrightarrow> reachable s P (savePreferences k s st)"
| seen: "reachable s P st \<Longrightarrow>
    reachable (dismissFeatureInfo s) P (st\<lparr>item_hasSeenFeatureInfo := Some ''true''\<rparr>)"
| handled: "reachable s P st \<Longrightarrow> search_target e ev s = None \<Longrightarrow>
    reachable (handle ev s) P st"
| refused: "reachable s P st \<Longrightarrow> search_target e ev s = Some loc \<Longrightarrow> no_api_key e \<Longrightarrow>
    reachable (s\<lparr>error := Some msg_unavailable\<rparr>) P st"
| begun: "reachable s P st \<Longrightarrow> search_target e ev s = Some loc \<Longrightarrow> \<not> no_api_key e \<Longrightarrow>
    reachable (fetchWeather_begin s) ((loc, s) # P) st"
| settled: "reachable s P st \<Longrightarrow> (loc, c) \<in> set P \<Longrightarrow>
    reachable (fetchWeather_settle (fst (fetchWeather_requests e loc c)) loc c s)
      (remove1 (loc, c) P) st"

text \<open>The invariant of the two lists.\<close>

definition app_inv :: "state \<Rightarrow> bool" where
  "app_inv s =
     (length (recentLocations s) \<le> 5 \<and> distinct (recentLocations s) \<and> distinct (favorites s))"

definition storage_inv :: "storage \<Rightarrow> bool" where
  "storage_inv st =
     ((case item_recentLocations st of Array xs \<Rightarrow> length xs \<le> 5 \<and> distinct xs | _ \<Rightarrow> True) \<and>
      (case item_weatherFavorites st of Array xs \<Rightarrow> distinct xs | _ \<Rightarrow> True))"

subsection \<open>Concrete environments and states\<close>

definition sample_weather :: WeatherData where
  "sample_weather =
     \<lparr>name = ''Paris'',
      main = \<lparr>temp = 18, feels_like = 17, temp_max = 21, temp_min = 12, humidity = 60\<rparr>,
      wind = \<lparr>speed = 4\<rparr>, weather_conditions = [\<lparr>condition_main = ''Clouds''\<rparr>],
      rain = None, snow = None\<rparr>"

definition sample_forecast :: "ForecastData list" where
  "sample_forecast =
     map (\<lambda>i. \<lparr>dt = 1700000000 + 10800 * real i, forecast_temp = 10 + real i\<rparr>) [0..<40]"

text \<open>The ASCII characters among those \<^verbatim>\<open>trim\<close> strips. It strips others too (the
  no-break space, the Unicode spaces, the line and paragraph separators), which do not
  occur in the place names below; every property is proved for any \<open>is_whitespace\<close>.\<close>

definition ascii_whitespace :: "char \<Rightarrow> bool" where
  "ascii_whitespace ch = (ch \<in> set [CHR '' '', CHR 0x09, CHR 0x0A, CHR 0x0B, CHR 0x0C, CHR 0x0D])"

text \<open>A provider that answers both requests, one whose forecast endpoint answers with
  an error status, one that rejects the key, and a build with no key.\<close>

definition env_ok :: env where
  "env_ok =
     \<lparr>API_KEY = Some ''k3y'',
      fetch_weather = (\<lambda>_. Response True (Json sample_weather)),
      fetch_forecast = (\<lambda>_. Response True (Json sample_forecast)),
      is_whitespace = ascii_whitespace\<rparr>"

definition env_no_forecast :: env where
  "env_no_forecast = env_ok\<lparr>fetch_forecast := (\<lambda>_. Response False (JsonThrows OtherValue))\<rparr>"

definition env_bad_key :: env where
  "env_bad_key =
     env_ok\<lparr>API_KEY := Some ''wrong'',
            fetch_weather := (\<lambda>_. Response False (JsonThrows OtherValue))\<rparr>"

definition env_no_key :: env where
  "env_no_key = env_ok\<lparr>API_KEY := None\<rparr>"

text \<open>A state whose list of recent places has two entries, and the state after a first
  search for Paris typed into the box.\<close>

definition visited_state :: state where
  "visited_state = initial_state\<lparr>recentLocations := [''Oslo'', ''Paris'']\<rparr>"

definition shown_state :: state where
  "shown_state = fst (dispatch env_ok Submit (setLocation ''Paris'' initial_state))"

definition sample_date :: "number \<Rightarrow> string" where
  "sample_date ms = (if ms < 1700086400000 then ''11/14/2023'' else ''later'')"

section \<open>Properties\<close>

subsection \<open>\<^verbatim>\<open>fetchWeather\<close> by cases\<close>

lemma fetchWeather_no_key:
  "no_api_key e \<Longrightarrow> fetchWeather e loc s = (s\<lparr>error := Some msg_unavailable\<rparr>, [])"
  by (simp add: fetchWeather_def)

lemma fetchWeather_with_key:
  "\<not> no_api_key e \<Longrightarrow>
   fst (fetchWeather e loc s) =
     fetchWeather_settle (fst (fetchWeather_requests e loc s)) loc s (fetchWeather_begin s)"
  by (simp add: fetchWeather_def split: prod.splits)

lemma recentLocations_settle:
  "recentLocations (fetchWeather_settle r loc c s) =
     (case r of Inl t \<Rightarrow> recentLocations s
      | Inr p \<Rightarrow> if loc \<in> set (recentLocations c) then recentLocations s
                 else take 5 (loc # recentLocations c))"
  by (simp add: fetchWeather_settle_def Let_def split: sum.splits prod.splits)

lemma favorites_settle: "favorites (fetchWeather_settle r loc c s) = favorites s"
  by (simp add: fetchWeather_settle_def Let_def split: sum.splits prod.splits)

lemma recentLocations_success:
  assumes "search_succeeds e loc s"
  shows "recentLocations (fst (fetchWeather e loc s)) =
           (if loc \<in> set (recentLocations s) then recentLocations s
            else take 5 (loc # recentLocations s))"
proof -
  from assms have key: "\<not> no_api_key e"
    and "\<exists>p. fst (fetchWeather_requests e loc s) = Inr p"
    by (auto simp: search_succeeds_def split: sum.splits)
  then obtain p where p: "fst (fetchWeather_requests e loc s) = Inr p" by blast
  show ?thesis
    by (simp add: fetchWeather_with_key [OF key] recentLocations_settle p fetchWeather_begin_def)
qed

text \<open>Submitting the form is \<^verbatim>\<open>handleSearch\<close>.\<close>

lemma dispatch_Submit: "dispatch e Submit s = handleSearch e s"
  by (simp add: dispatch_def handleSearch_def)

text \<open>A search succeeds exactly when a key is configured and both responses are \<^verbatim>\<open>ok\<close>
  with a body that parses.\<close>

lemma search_succeeds_iff:
  "search_succeeds e loc s \<longleftrightarrow>
     \<not> no_api_key e \<and>
     (\<exists>w fl. fetch_weather e (weather_url e loc (units s)) = Response True (Json w) \<and>
             fetch_forecast e (forecast_url e loc (units s)) = Response True (Json fl))"
  by (auto simp: search_succeeds_def fetchWeather_requests_def Let_def
      split: fetch_result.splits body.splits if_splits)

lemma env_ok_succeeds: "search_succeeds env_ok loc s"
  by (simp add: search_succeeds_def env_ok_def no_api_key_def fetchWeather_requests_def)

lemma distinct_take_Cons:
  assumes "x \<notin> set xs"
  shows "distinct (take 5 (x # xs)) = distinct (take 4 xs)"
proof -
  from assms have "x \<notin> set (take 4 xs)" by (auto dest: in_set_takeD)
  moreover have "take 5 (x # xs) = x # take 4 xs" by (simp add: take_Cons')
  ultimately show ?thesis by simp
qed

subsection \<open>Recent places\<close>

text \<open>
  Claim C10. When a search for a place that is already among the recent places
  succeeds, at whatever position the place stands, the list of recent places is left
  as it was: the place is not moved to the front.
\<close>

theorem search_keeps_known_place:
  assumes "search_succeeds e P s" and "P \<in> set (recentLocations s)"
  shows "recentLocations (fst (fetchWeather e P s)) = recentLocations s"
  using assms by (simp add: recentLocations_success)

theorem search_keeps_known_place_witness:
  "search_succeeds env_ok ''Paris'' visited_state
   \<and> ''Paris'' \<in> set (recentLocations visited_state)
   \<and> recentLocations (fst (fetchWeather env_ok ''Paris'' visited_state)) = [''Oslo'', ''Paris'']"
proof -
  have old: "''Paris'' \<in> set (recentLocations visited_state)"
    by (simp add: visited_state_def)
  from search_keeps_known_place [OF env_ok_succeeds old]
  show ?thesis using env_ok_succeeds [of "''Paris''" visited_state]
    by (simp add: visited_state_def)
qed

subsection \<open>Failures of a search\<close>

text \<open>
  Claim C2. With no API key configured (undefined or empty), \<^verbatim>\<open>fetchWeather\<close> issues no
  request and sets the error to the "temporarily unavailable" message at once; the
  loading flag, the weather and the forecast, as every other cell, stay as they were.
  No event of the page issues a request either.
\<close>

theorem no_key_no_request:
  assumes "no_api_key e"
  shows "fetchWeather e loc s = (s\<lparr>error := Some msg_unavailable\<rparr>, [])
       \<and> snd (dispatch e ev s) = []
       \<and> error (fst (fetchWeather e loc s)) =
           Some ''Weather data is temporarily unavailable. Please check back later.''
       \<and> loading (fst (fetchWeather e loc s)) = loading s
       \<and> weather (fst (fetchWeather e loc s)) = weather s
       \<and> forecast (fst (fetchWeather e loc s)) = forecast s"
  using assms
  by (simp add: fetchWeather_no_key dispatch_def msg_unavailable_def split: option.splits)

theorem no_key_no_request_witness:
  "no_api_key env_no_key
   \<and> fetchWeather env_no_key ''Paris'' initial_state
       = (initial_state\<lparr>error := Some msg_unavailable\<rparr>, [])
   \<and> snd (dispatch env_no_key (FavoriteChip ''Paris'')
            (initial_state\<lparr>favorites := [''Paris'']\<rparr>)) = []"
proof -
  have h: "no_api_key env_no_key"
    by (simp add: no_api_key_def env_no_key_def)
  from no_key_no_request [OF h, of "''Paris''" initial_state "FavoriteChip ''Paris''"]
       no_key_no_request [OF h, of "''Paris''" "initial_state\<lparr>favorites := [''Paris'']\<rparr>"
         "FavoriteChip ''Paris''"]
  show ?thesis using h by simp
qed

text \<open>
  Claim C3. When the request for current conditions is answered \<^verbatim>\<open>ok\<close> with a body that
  parses and the request for the forecast is answered with a status that is not
  \<^verbatim>\<open>ok\<close>, the call ends with the error "Forecast data unavailable" and the loading
  flag off. The conditions already fetched are stored nowhere: the weather, the
  forecast, the recent places and every cell other than the error and the loading flag
  are those from before the search. Both requests were issued.
\<close>

theorem forecast_failure_discards_all:
  assumes "\<not> no_api_key e"
    and "fetch_weather e (weather_url e loc (units s)) = Response True (Json w)"
    and "fetch_forecast e (forecast_url e loc (units s)) = Response False b"
  shows "fetchWeather e loc s =
           (s\<lparr>error := Some ''Forecast data unavailable'', loading := False\<rparr>,
            [weather_url e loc (units s), forecast_url e loc (units s)])
       \<and> weather (fst (fetchWeather e loc s)) = weather s
       \<and> forecast (fst (fetchWeather e loc s)) = forecast s
       \<and> recentLocations (fst (fetchWeather e loc s)) = recentLocations s"
  using assms
  by (simp add: fetchWeather_def fetchWeather_requests_def fetchWeather_settle_def
      fetchWeather_begin_def error_message_def msg_forecast_def)

theorem forecast_failure_discards_all_witness:
  "\<not> no_api_key env_no_forecast
   \<and> fetch_weather env_no_forecast (weather_url env_no_forecast ''Paris'' (units shown_state))
       = Response True (Json sample_weather)
   \<and> fetch_forecast env_no_forecast (forecast_url env_no_forecast ''Paris'' (units shown_state))
       = Response False (JsonThrows OtherValue)
   \<and> fst (fetchWeather env_no_forecast ''Paris'' shown_state)
       = shown_state\<lparr>error := Some ''Forecast data unavailable'', loading := False\<rparr>"
proof -
  have k: "\<not> no_api_key env_no_forecast"
    by (simp add: no_api_key_def env_no_forecast_def env_ok_def)
  have w: "fetch_weather env_no_forecast
             (weather_url env_no_forecast ''Paris'' (units shown_state))
           = Response True (Json sample_weather)"
    by (simp add: env_no_forecast_def env_ok_def)
  have f: "fetch_forecast env_no_forecast
             (forecast_url env_no_forecast ''Paris'' (units shown_state))
           = Response False (JsonThrows OtherValue)"
    by (simp add: env_no_forecast_def env_ok_def)
  from forecast_failure_discards_all [OF k w f]
  show ?thesis using k w f by simp
qed

subsection \<open>Units and undo\<close>

text \<open>
  Claim C4. Whatever the unit system \<open>u\<close> is, toggling changes it and offers the undo
  control; undoing then restores exactly \<open>u\<close> and empties the last action, so that the
  undo control is gone and the state is the one before the toggle with no last action;
  undoing once more changes nothing.
\<close>

theorem toggle_then_undo:
  "units (toggleUnits s) \<noteq> units s
   \<and> undo_control (toggleUnits s) = True
   \<and> units (undoLastAction (toggleUnits s)) = units s
   \<and> lastAction (undoLastAction (toggleUnits s)) = None
   \<and> undo_control (undoLastAction (toggleUnits s)) = False
   \<and> undoLastAction (toggleUnits s) = s\<lparr>lastAction := None\<rparr>
   \<and> undoLastAction (undoLastAction (toggleUnits s)) = undoLastAction (toggleUnits s)"
  by (simp add: toggleUnits_def undoLastAction_def undo_control_def)

text \<open>
  Claim C8. Toggling the units turns metric into imperial and imperial into metric and
  records the previous value as the last action, of type "units". Nothing else
  changes: the stored weather and forecast are the same values, and the units button
  issues no request.
\<close>

theorem toggleUnits_frame:
  "toggleUnits (s\<lparr>units := ''metric''\<rparr>) =
     s\<lparr>units := ''imperial'',
       lastAction := Some \<lparr>action_type = ''units'', action_value = ''metric''\<rparr>\<rparr>
   \<and> toggleUnits (s\<lparr>units := ''imperial''\<rparr>) =
     s\<lparr>units := ''metric'',
       lastAction := Some \<lparr>action_type = ''units'', action_value = ''imperial''\<rparr>\<rparr>
   \<and> lastAction (toggleUnits s) = Some \<lparr>action_type = ''units'', action_value = units s\<rparr>
   \<and> toggleUnits s = s\<lparr>units := units (toggleUnits s), lastAction := lastAction (toggleUnits s)\<rparr>
   \<and> weather (toggleUnits s) = weather s
   \<and> forecast (toggleUnits s) = forecast s
   \<and> dispatch e UnitsButton s = (toggleUnits s, [])"
  by (simp add: toggleUnits_def dispatch_def)

subsection \<open>Favourites\<close>

text \<open>
  Claim C5. Toggling the same place twice in a row leaves the favourites with the
  members they had: a place that was absent is appended and then filtered out, a place
  that was present is filtered out and then appended.
\<close>

theorem toggleFavorite_twice:
  "set (favorites (toggleFavorite P (toggleFavorite P s))) = set (favorites s)"
  by (auto simp: toggleFavorite_def)

subsection \<open>The chart\<close>

lemma filter_enumerate_nth:
  "map snd (filter (\<lambda>(i, x). q i) (enumerate n xs)) =
     map (\<lambda>i. xs ! (i - n)) (filter q [n..<n + length xs])"
proof (induction xs arbitrary: n)
  case Nil
  then show ?case by simp
next
  case (Cons x xs)
  have shift: "map (\<lambda>i. (x # xs) ! (i - n)) (filter q [Suc n..<Suc n + length xs]) =
        map (\<lambda>i. xs ! (i - Suc n)) (filter q [Suc n..<Suc n + length xs])"
    by (rule map_cong [OF refl]) (auto simp del: upt_Suc simp add: nth_Cons')
  have range: "[n..<n + length (x # xs)] = n # [Suc n..<Suc n + length xs]"
    by (simp del: upt_Suc add: upt_conv_Cons)
  show ?case
    unfolding range using Cons.IH [of "Suc n"] shift by (simp del: upt_Suc)
qed

lemma filter_with_index_nth:
  "filter_with_index (\<lambda>_ index. q index) xs = map (\<lambda>i. xs ! i) (filter q [0..<length xs])"
  using filter_enumerate_nth [of q 0 xs] by (simp add: filter_with_index_def)

lemma every_eighth_of_40: "filter (\<lambda>i. i mod 8 = 0) [0..<40] = [0, 8, 16, 24, 32]"
  by code_simp

text \<open>
  Claim C6. From a forecast of 40 points the chart gets exactly five: the points at
  indices 0, 8, 16, 24 and 32, each with the temperature of its point and, as its
  label, the local date of that point's timestamp.
\<close>

theorem chart_of_40:
  assumes "length (forecast s) = 40"
  shows "renderForecastChart toLocaleDateString s =
           Some (map (\<lambda>i. \<lparr>date = toLocaleDateString (dt (forecast s ! i) * 1000),
                            chart_temp = forecast_temp (forecast s ! i)\<rparr>)
                   [0, 8, 16, 24, 32])
       \<and> (\<exists>chartData. renderForecastChart toLocaleDateString s = Some chartData
             \<and> length chartData = 5)"
  using assms by (simp add: renderForecastChart_def filter_with_index_nth every_eighth_of_40)

lemma shown_state_eq:
  "shown_state =
     initial_state\<lparr>location := ''Paris'', weather := Some sample_weather,
       forecast := sample_forecast, recentLocations := [''Paris'']\<rparr>"
  by (simp add: shown_state_def dispatch_def setLocation_def env_ok_def ascii_whitespace_def
      fetchWeather_def no_api_key_def fetchWeather_requests_def fetchWeather_settle_def
      fetchWeather_begin_def initial_state_def)

lemma sample_forecast_nth:
  "i < 40 \<Longrightarrow>
   sample_forecast ! i = \<lparr>dt = 1700000000 + 10800 * real i, forecast_temp = 10 + real i\<rparr>"
  by (simp add: sample_forecast_def)

theorem chart_of_40_witness:
  "length (forecast shown_state) = 40
   \<and> renderForecastChart sample_date shown_state =
       Some [\<lparr>date = ''11/14/2023'', chart_temp = 10\<rparr>, \<lparr>date = ''later'', chart_temp = 18\<rparr>,
             \<lparr>date = ''later'', chart_temp = 26\<rparr>, \<lparr>date = ''later'', chart_temp = 34\<rparr>,
             \<lparr>date = ''later'', chart_temp = 42\<rparr>]"
proof -
  have fc: "forecast shown_state = sample_forecast"
    by (simp add: shown_state_eq)
  have len: "length (forecast shown_state) = 40"
    by (simp add: fc sample_forecast_def)
  from chart_of_40 [OF len, of sample_date]
  show ?thesis using len by (simp add: fc sample_forecast_nth sample_date_def)
qed

subsection \<open>The footer notice\<close>

text \<open>None of the four messages the page itself puts into the error cell contains
  "API key".\<close>

lemma own_messages_lack_API_key:
  "includes_str msg_unavailable ''API key'' = False"
  "includes_str msg_not_found ''API key'' = False"
  "includes_str msg_forecast ''API key'' = False"
  "includes_str msg_unknown ''API key'' = False"
  by (simp_all add: msg_unavailable_def msg_not_found_def msg_forecast_def msg_unknown_def)

lemma footer_notice_without_key:
  "no_api_key e \<Longrightarrow> footer_notice (fst (fetchWeather e loc s)) = False"
  by (simp add: fetchWeather_no_key footer_notice_def own_messages_lack_API_key)

lemma footer_notice_rejected_key:
  assumes "\<not> no_api_key e"
    and "fetch_weather e (weather_url e loc (units s)) = Response False b"
  shows "footer_notice (fst (fetchWeather e loc s)) = False"
  using assms
  by (simp add: fetchWeather_with_key fetchWeather_requests_def fetchWeather_settle_def
      error_message_def footer_notice_def own_messages_lack_API_key)

text \<open>
  Claim C9 says that the footer asks for the API key to be configured when the key is
  missing or invalid. The footer tests the error for the text "API key". With no key,
  a search for London from the initial state sets the "temporarily unavailable"
  message; with a key the provider rejects, it sets the "Location not found" message.
  Neither contains "API key", and the notice is rendered in neither state.
\<close>

theorem footer_notice_not_rendered:
  "no_api_key env_no_key
   \<and> error (fst (fetchWeather env_no_key ''London'' initial_state))
       = Some ''Weather data is temporarily unavailable. Please check back later.''
   \<and> footer_notice (fst (fetchWeather env_no_key ''London'' initial_state)) = False
   \<and> error (fst (fetchWeather env_bad_key ''London'' initial_state))
       = Some ''Location not found. Please check the spelling and try again.''
   \<and> footer_notice (fst (fetchWeather env_bad_key ''London'' initial_state)) = False"
proof -
  have none: "no_api_key env_no_key"
    by (simp add: no_api_key_def env_no_key_def)
  have bad: "\<not> no_api_key env_bad_key"
    by (simp add: no_api_key_def env_bad_key_def)
  have resp: "fetch_weather env_bad_key (weather_url env_bad_key ''London'' (units initial_state))
      = Response False (JsonThrows OtherValue)"
    by (simp add: env_bad_key_def)
  have "error (fst (fetchWeather env_bad_key ''London'' initial_state)) = Some msg_not_found"
    using bad resp
    by (simp add: fetchWeather_with_key fetchWeather_requests_def fetchWeather_settle_def
        error_message_def)
  with none footer_notice_without_key [OF none] footer_notice_rejected_key [OF bad resp]
  show ?thesis
    by (simp add: fetchWeather_no_key msg_unavailable_def msg_not_found_def)
qed

subsection \<open>The invariant of the lists\<close>

lemma app_inv_initial: "app_inv initial_state"
  by (simp add: app_inv_def initial_state_def)

lemma storage_inv_empty: "storage_inv empty_storage"
  by (simp add: storage_inv_def empty_storage_def)

text \<open>On a first visit the loading effect leaves the initial state as it is.\<close>

lemma load_empty: "loadPreferences empty_storage initial_state = initial_state"
  by (simp add: loadPreferences_def empty_storage_def parse_array_def truthy_def
      initial_state_def)

lemma app_inv_load: "storage_inv st \<Longrightarrow> app_inv (loadPreferences st initial_state)"
  by (auto simp: storage_inv_def app_inv_def loadPreferences_def parse_array_def
      initial_state_def Let_def split: stored_array.splits option.splits)

lemma storage_inv_save:
  "app_inv s \<Longrightarrow> storage_inv st \<Longrightarrow> storage_inv (savePreferences k s st)"
  by (simp add: storage_inv_def app_inv_def savePreferences_def Let_def)

lemma app_inv_toggleFavorite: "app_inv s \<Longrightarrow> app_inv (toggleFavorite loc s)"
  by (simp add: app_inv_def toggleFavorite_def)

lemma app_inv_toggleUnits: "app_inv (toggleUnits s) = app_inv s"
  by (simp add: app_inv_def toggleUnits_def)

lemma app_inv_undoLastAction: "app_inv (undoLastAction s) = app_inv s"
  by (simp add: app_inv_def undoLastAction_def split: option.splits)

lemma app_inv_toggleTheme: "app_inv (toggleTheme s) = app_inv s"
  by (simp add: app_inv_def toggleTheme_def)

lemma app_inv_setLocation: "app_inv (setLocation v s) = app_inv s"
  by (simp add: app_inv_def setLocation_def)

lemma app_inv_dismissFeatureInfo: "app_inv (dismissFeatureInfo s) = app_inv s"
  by (simp add: app_inv_def dismissFeatureInfo_def)

lemma app_inv_toggleDetails: "app_inv (toggleDetails s) = app_inv s"
  by (simp add: app_inv_def toggleDetails_def)

lemma app_inv_handle: "app_inv s \<Longrightarrow> app_inv (handle ev s)"
  by (cases ev)
    (simp_all add: app_inv_toggleFavorite app_inv_toggleUnits app_inv_undoLastAction
      app_inv_toggleTheme app_inv_setLocation app_inv_dismissFeatureInfo
      app_inv_toggleDetails split: option.splits)

text \<open>The setters of a search that ends keep the invariant when both the state of that
  moment and the state its closure captured satisfy it.\<close>

lemma app_inv_settle:
  assumes "app_inv s" and "app_inv c"
  shows "app_inv (fetchWeather_settle r loc c s)"
proof -
  have "distinct (take 5 (loc # recentLocations c))" if "loc \<notin> set (recentLocations c)"
  proof -
    from assms(2) have "distinct (take 4 (recentLocations c))"
      by (simp add: app_inv_def distinct_take)
    with distinct_take_Cons [OF that] show ?thesis by blast
  qed
  then show ?thesis
    using assms
    by (auto simp: app_inv_def recentLocations_settle favorites_settle split: sum.splits)
qed

lemma app_inv_begin: "app_inv (fetchWeather_begin s) = app_inv s"
  by (simp add: app_inv_def fetchWeather_begin_def)

lemma app_inv_error: "app_inv (s\<lparr>error := m\<rparr>) = app_inv s"
  by (simp add: app_inv_def)

lemma app_inv_fetchWeather: "app_inv s \<Longrightarrow> app_inv (fst (fetchWeather e loc s))"
  by (cases "no_api_key e")
    (simp_all add: fetchWeather_no_key fetchWeather_with_key app_inv_error app_inv_settle
      app_inv_begin)

lemma app_inv_handleSearch: "app_inv s \<Longrightarrow> app_inv (fst (handleSearch e s))"
  by (simp add: handleSearch_def app_inv_fetchWeather)

lemma app_inv_dispatch: "app_inv s \<Longrightarrow> app_inv (fst (dispatch e ev s))"
  by (simp add: dispatch_def app_inv_fetchWeather app_inv_handle split: option.splits)

text \<open>In every reachable configuration the state, the state captured by each pending
  search and the stored lists satisfy the invariant.\<close>

lemma reachable_inv:
  "reachable s P st \<Longrightarrow> app_inv s \<and> (\<forall>p \<in> set P. app_inv (snd p)) \<and> storage_inv st"
proof (induction rule: reachable.induct)
  case first_visit
  show ?case by (simp add: app_inv_initial storage_inv_empty)
next
  case (reload s P st k)
  then show ?case by (simp add: app_inv_load storage_inv_save app_inv_initial)
next
  case (save s P st k)
  then show ?case by (simp add: storage_inv_save)
next
  case (seen s P st)
  then show ?case by (simp add: app_inv_dismissFeatureInfo storage_inv_def)
next
  case (handled s P st e ev)
  then show ?case by (simp add: app_inv_handle)
next
  case (refused s P st e ev loc)
  then show ?case by (simp add: app_inv_error)
next
  case (begun s P st e ev loc)
  then show ?case by (simp add: app_inv_begin)
next
  case (settled s P st loc c e)
  then have "app_inv c" by force
  with settled show ?case
    by (auto simp: app_inv_settle dest: notin_set_remove1)
qed

text \<open>An event run to completion is a path of the interleaved page: a search that begins
  and ends with nothing in between.\<close>

lemma reachable_dispatch:
  assumes "reachable s P st"
  shows "reachable (fst (dispatch e ev s)) P st"
proof (cases "search_target e ev s")
  case None
  with assms show ?thesis by (simp add: dispatch_def reachable.handled)
next
  case (Some loc)
  show ?thesis
  proof (cases "no_api_key e")
    case True
    with assms Some show ?thesis
      by (simp add: dispatch_def fetchWeather_no_key reachable.refused)
  next
    case False
    from reachable.begun [OF assms Some False]
    have "reachable (fetchWeather_begin s) ((loc, s) # P) st" .
    from reachable.settled [OF this, of loc s e]
    show ?thesis using Some False by (simp add: dispatch_def fetchWeather_with_key)
  qed
qed

lemma reachable_shown_state: "reachable shown_state [] empty_storage"
proof -
  have "reachable (handle (Type ''Paris'') initial_state) [] empty_storage"
    by (rule reachable.handled [OF reachable.first_visit, of env_ok]) simp
  then show ?thesis
    unfolding shown_state_def by (simp add: reachable_dispatch)
qed

text \<open>
  Claim C7. In every state the page reaches from its first visit, through events,
  searches that overlap, saves and reloads on its own storage, the recent places are at
  most five and without duplicates and the favourites are without duplicates. Each
  operation keeps this: a search, from the form or from a chip, whatever the provider
  answers; toggling a favourite; toggling the units; undo; toggling the theme; and any
  event of the page run to completion.
\<close>

theorem lists_invariant:
  "(reachable s P st \<longrightarrow> app_inv s)
   \<and> (app_inv s \<longrightarrow>
        app_inv (fst (fetchWeather e loc s)) \<and> app_inv (fst (handleSearch e s))
      \<and> app_inv (toggleFavorite loc s) \<and> app_inv (toggleUnits s)
      \<and> app_inv (undoLastAction s) \<and> app_inv (toggleTheme s)
      \<and> app_inv (fst (dispatch e ev s)))"
  using reachable_inv [of s P st]
  by (simp add: app_inv_fetchWeather app_inv_handleSearch app_inv_toggleFavorite
      app_inv_toggleUnits app_inv_undoLastAction app_inv_toggleTheme app_inv_dispatch)

theorem lists_invariant_witness:
  "reachable shown_state [] empty_storage
   \<and> app_inv shown_state
   \<and> recentLocations shown_state = [''Paris'']
   \<and> app_inv (toggleFavorite ''Paris'' shown_state)
   \<and> app_inv (fst (fetchWeather env_ok ''Oslo'' shown_state))"
proof -
  from lists_invariant [of shown_state "[]" empty_storage env_ok "''Paris''" Star]
       lists_invariant [of shown_state "[]" empty_storage env_ok "''Oslo''" Star]
  show ?thesis using reachable_shown_state by (simp add: shown_state_eq)
qed

subsection \<open>A new place among the recent ones\<close>

text \<open>
  Claim C1. When a search for a place \<open>P\<close> that is not among the recent places
  succeeds, the recent places become \<open>P\<close> followed by the previous list, cut to its
  first five entries, whatever the previous list is. The new list has no duplicates
  whenever the previous list had none, and so in every state the page reaches, where
  the invariant of the lists holds.
\<close>

theorem search_prepends_new_place:
  assumes "search_succeeds e P s" and "P \<notin> set (recentLocations s)"
  shows "recentLocations (fst (fetchWeather e P s)) = take 5 (P # recentLocations s)
       \<and> length (recentLocations (fst (fetchWeather e P s))) \<le> 5
       \<and> (distinct (recentLocations s) \<longrightarrow>
            distinct (recentLocations (fst (fetchWeather e P s))))
       \<and> (reachable s Q st \<longrightarrow>
            distinct (recentLocations (fst (fetchWeather e P s))))"
proof -
  let ?new = "recentLocations (fst (fetchWeather e P s))"
  have eq: "?new = take 5 (P # recentLocations s)"
    using assms by (simp add: recentLocations_success)
  have len: "length ?new \<le> 5"
    unfolding eq by simp
  have iff: "distinct ?new = distinct (take 4 (recentLocations s))"
    unfolding eq using assms(2) by (rule distinct_take_Cons)
  have kept: "distinct (recentLocations s) \<longrightarrow> distinct ?new"
    unfolding iff by (simp add: distinct_take)
  have "reachable s Q st \<longrightarrow> distinct (recentLocations s)"
    using reachable_inv [of s Q st] by (simp add: app_inv_def)
  with eq len kept show ?thesis by blast
qed

theorem search_prepends_new_place_witness:
  "search_succeeds env_ok ''Rome'' shown_state
   \<and> ''Rome'' \<notin> set (recentLocations shown_state)
   \<and> distinct (recentLocations shown_state)
   \<and> reachable shown_state [] empty_storage
   \<and> recentLocations (fst (fetchWeather env_ok ''Rome'' shown_state)) = [''Rome'', ''Paris'']
   \<and> distinct (recentLocations (fst (fetchWeather env_ok ''Rome'' shown_state)))"
proof -
  have new: "''Rome'' \<notin> set (recentLocations shown_state)"
    by (simp add: shown_state_eq)
  from search_prepends_new_place [OF env_ok_succeeds new, of "[]" empty_storage]
  show ?thesis
    using env_ok_succeeds [of "''Rome''" shown_state] reachable_shown_state
    by (simp add: shown_state_eq)
qed

end
